theory Spec2Isabelle
  imports Main "HOL-Library.Word" "HOL-Library.AList" "HOL-Library.Multiset"
begin

section \<open>The CRUD service: data model\<close>

text \<open>
  Go's \<^verbatim>\<open>int\<close> is a signed machine integer; on the 64-bit platforms it is 64 bits
  wide and \<^verbatim>\<open>++\<close> wraps around silently. It is modelled as a 64-bit word that is
  read through \<open>sint\<close> wherever the code compares or orders it.
\<close>

type_synonym go_int = "64 word"

text \<open>\<^verbatim>\<open>type Post struct { ID int; Title string; Body string }\<close>\<close>

record Post =
  ID :: go_int
  Title :: string
  Body :: string

text \<open>
  Go's \<^verbatim>\<open>error\<close> values, as far as the code tells them apart: the package
  variable \<^verbatim>\<open>ErrNotFound\<close>, the \<^verbatim>\<open>*strconv.NumError\<close> of
  \<^verbatim>\<open>strconv.Atoi\<close>, and any other error (of \<^verbatim>\<open>c.ShouldBindJSON\<close>, of an
  e-mail or messaging service) with its message.
\<close>

datatype error = ErrNotFound | NumError | OtherError string

text \<open>
  The package variables \<^verbatim>\<open>inmemoryPostDB\<close> (a \<^verbatim>\<open>map[int]Post\<close>) and
  \<^verbatim>\<open>idPostCounter\<close>. The map is an association list: its order stands for the
  unspecified order in which Go iterates over a map, which \<^verbatim>\<open>GetAllPost\<close> has to
  cope with. A Go map holds one entry per key, so the lists that stand for maps are
  those with distinct keys. The mutex \<^verbatim>\<open>idPostMutex\<close> has no counterpart: calls
  are modelled one after the other.
\<close>

record state =
  inmemoryPostDB :: "(go_int \<times> Post) list"
  idPostCounter :: go_int

definition init_state :: state where
  "init_state = \<lparr>inmemoryPostDB = [], idPostCounter = 0\<rparr>"

definition is_go_map :: "(go_int \<times> Post) list \<Rightarrow> bool" where
  "is_go_map m = distinct (map fst m)"

text \<open>Both methods that write to the map store a post under its own ID.\<close>

definition keys_are_IDs :: "(go_int \<times> Post) list \<Rightarrow> bool" where
  "keys_are_IDs m = list_all (\<lambda>(k, p). ID p = k) m"

section \<open>The DB methods\<close>

definition AddPost :: "state \<Rightarrow> Post \<Rightarrow> state \<times> (error + Post)" where
  "AddPost s newPost =
     (let c = idPostCounter s + 1;
          newPost' = newPost\<lparr>ID := c\<rparr>
      in (s\<lparr>idPostCounter := c,
             inmemoryPostDB := AList.update c newPost' (inmemoryPostDB s)\<rparr>,
          Inr newPost'))"

definition GetPostByID :: "state \<Rightarrow> go_int \<Rightarrow> error + Post" where
  "GetPostByID s id' =
     (case map_of (inmemoryPostDB s) id' of
        None \<Rightarrow> Inl ErrNotFound
      | Some post \<Rightarrow> Inr post)"

text \<open>\<^verbatim>\<open>cmp.Compare\<close> on two \<^verbatim>\<open>int\<close>s: -1, 0 or +1 by the signed order.\<close>

definition cmp_Compare :: "go_int \<Rightarrow> go_int \<Rightarrow> int" where
  "cmp_Compare x y = (if sint x < sint y then -1 else if sint y < sint x then 1 else 0)"

text \<open>\<^verbatim>\<open>maps.Values\<close>: the values of the map, in the map's iteration order.\<close>

definition maps_Values :: "('k \<times> 'v) list \<Rightarrow> 'v list" where
  "maps_Values m = map snd m"

text \<open>
  \<^verbatim>\<open>slices.SortedFunc(seq, cmp)\<close> collects the sequence and sorts it by \<open>cmp\<close>.
  The library's sort is not stable, so the order among elements that compare equal is
  not determined by the source; the model inserts each element before the first one
  that is not smaller.
\<close>

fun insert_by :: "('a \<Rightarrow> 'a \<Rightarrow> int) \<Rightarrow> 'a \<Rightarrow> 'a list \<Rightarrow> 'a list" where
  "insert_by c x [] = [x]"
| "insert_by c x (y # ys) = (if c x y \<le> 0 then x # y # ys else y # insert_by c x ys)"

fun slices_SortedFunc :: "'a list \<Rightarrow> ('a \<Rightarrow> 'a \<Rightarrow> int) \<Rightarrow> 'a list" where
  "slices_SortedFunc [] c = []"
| "slices_SortedFunc (x # xs) c = insert_by c x (slices_SortedFunc xs c)"

text \<open>The order that \<^verbatim>\<open>GetAllPost\<close> sorts by: ascending ID, read as a signed integer.\<close>

definition by_ID :: "Post \<Rightarrow> Post \<Rightarrow> bool" where
  "by_ID p q \<longleftrightarrow> sint (ID p) \<le> sint (ID q)"

definition GetAllPost :: "state \<Rightarrow> error + Post list" where
  "GetAllPost s =
     Inr (slices_SortedFunc (maps_Values (inmemoryPostDB s))
            (\<lambda>p1 p2. cmp_Compare (ID p1) (ID p2)))"

definition UpdatePost :: "state \<Rightarrow> Post \<Rightarrow> state \<times> (error + Post)" where
  "UpdatePost s updatePost =
     (s\<lparr>inmemoryPostDB := AList.update (ID updatePost) updatePost (inmemoryPostDB s)\<rparr>,
      Inr updatePost)"

text \<open>\<^verbatim>\<open>DeletePostByID\<close> returns the new state and its error, which is always nil.\<close>

definition DeletePostByID :: "state \<Rightarrow> go_int \<Rightarrow> state \<times> error option" where
  "DeletePostByID s id' =
     (s\<lparr>inmemoryPostDB := AList.delete id' (inmemoryPostDB s)\<rparr>, None)"

section \<open>Requests and responses\<close>

text \<open>
  What a handler reads from its \<^verbatim>\<open>*gin.Context\<close>: the path parameter
  \<^verbatim>\<open>c.Param("id")\<close> (the empty string when the route has none) and the outcome of
  \<^verbatim>\<open>c.ShouldBindJSON\<close> on the request body, which is either the framework's error
  or the decoded \<^verbatim>\<open>{title, body}\<close>. \<^verbatim>\<open>NewPostReq\<close> and \<^verbatim>\<open>UpdatePostReq\<close> have
  the same two fields and share the record \<open>PostReq\<close>.
\<close>

record PostReq =
  reqTitle :: string
  reqBody :: string

record request =
  idParam :: string
  jsonBody :: "error + PostReq"

text \<open>A JSON value, as far as the responses need it.\<close>

datatype json = JInt go_int | JStr string | JObj "(string \<times> json) list" | JArr "json list"

text \<open>
  What a handler leaves in its context: the status code (gin starts at 200), the body
  written by \<^verbatim>\<open>c.JSON\<close>, the errors attached to the context and the abort flag.
\<close>

record response =
  status :: nat
  body :: "json option"
  errors :: "error list"
  aborted :: bool

definition new_context :: response where
  "new_context = \<lparr>status = 200, body = None, errors = [], aborted = False\<rparr>"

definition AbortWithStatus :: "nat \<Rightarrow> response \<Rightarrow> response" where
  "AbortWithStatus code c = c\<lparr>status := code, aborted := True\<rparr>"

definition AbortWithError :: "nat \<Rightarrow> error \<Rightarrow> response \<Rightarrow> response" where
  "AbortWithError code err c = (AbortWithStatus code c)\<lparr>errors := errors c @ [err]\<rparr>"

definition JSON :: "nat \<Rightarrow> json \<Rightarrow> response \<Rightarrow> response" where
  "JSON code obj c = c\<lparr>status := code, body := Some obj\<rparr>"

definition Status :: "nat \<Rightarrow> response \<Rightarrow> response" where
  "Status code c = c\<lparr>status := code\<rparr>"

definition StatusOK :: nat where "StatusOK = 200"
definition StatusNoContent :: nat where "StatusNoContent = 204"
definition StatusBadRequest :: nat where "StatusBadRequest = 400"
definition StatusNotFound :: nat where "StatusNotFound = 404"
definition StatusInternalServerError :: nat where "StatusInternalServerError = 500"

text \<open>
  The four response structs carry the same JSON tags \<^verbatim>\<open>id\<close>, \<^verbatim>\<open>title\<close>,
  \<^verbatim>\<open>body\<close>; each is modelled by the object \<^verbatim>\<open>c.JSON\<close> serialises it to.
\<close>

definition NewPostResp :: "go_int \<Rightarrow> string \<Rightarrow> string \<Rightarrow> json" where
  "NewPostResp i t b = JObj [(''id'', JInt i), (''title'', JStr t), (''body'', JStr b)]"

definition GetPostResp :: "go_int \<Rightarrow> string \<Rightarrow> string \<Rightarrow> json" where
  "GetPostResp i t b = JObj [(''id'', JInt i), (''title'', JStr t), (''body'', JStr b)]"

definition ListPostDataResp :: "go_int \<Rightarrow> string \<Rightarrow> string \<Rightarrow> json" where
  "ListPostDataResp i t b = JObj [(''id'', JInt i), (''title'', JStr t), (''body'', JStr b)]"

definition UpdatePostResp :: "go_int \<Rightarrow> string \<Rightarrow> string \<Rightarrow> json" where
  "UpdatePostResp i t b = JObj [(''id'', JInt i), (''title'', JStr t), (''body'', JStr b)]"

section \<open>\<^verbatim>\<open>strconv.Atoi\<close>\<close>

text \<open>
  The standard library's \<^verbatim>\<open>strconv.Atoi\<close>, base 10: an optional sign, then one or
  more decimal digits, and the value must fit an \<^verbatim>\<open>int\<close>. Anything else is a
  \<^verbatim>\<open>*NumError\<close>.
\<close>

definition digit_of :: "char \<Rightarrow> nat option" where
  "digit_of ch =
     (if of_char (CHR ''0'') \<le> (of_char ch :: nat) \<and> (of_char ch :: nat) \<le> of_char (CHR ''9'')
      then Some (of_char ch - of_char (CHR ''0'')) else None)"

fun parse_digits :: "nat \<Rightarrow> string \<Rightarrow> nat option" where
  "parse_digits n [] = Some n"
| "parse_digits n (ch # cs) =
     (case digit_of ch of None \<Rightarrow> None | Some d \<Rightarrow> parse_digits (n * 10 + d) cs)"

definition Atoi :: "string \<Rightarrow> error + go_int" where
  "Atoi s =
     (case s of
        [] \<Rightarrow> Inl NumError
      | ch # cs \<Rightarrow>
          (let neg = (ch = CHR ''-'');
               ds = (if ch = CHR ''-'' \<or> ch = CHR ''+'' then cs else s)
           in if ds = [] then Inl NumError
              else (case parse_digits 0 ds of
                      None \<Rightarrow> Inl NumError
                    | Some n \<Rightarrow>
                        if neg then (if n \<le> 2 ^ 63 then Inr (- word_of_nat n) else Inl NumError)
                        else (if n < 2 ^ 63 then Inr (word_of_nat n) else Inl NumError))))"

text \<open>
  A numeric path parameter: an optional sign, then one or more decimal digits.
\<close>

definition is_numeral :: "string \<Rightarrow> bool" where
  "is_numeral s =
     (case s of
        [] \<Rightarrow> False
      | ch # cs \<Rightarrow>
          (let ds = (if ch = CHR ''-'' \<or> ch = CHR ''+'' then cs else s)
           in ds \<noteq> [] \<and> list_all (\<lambda>d. digit_of d \<noteq> None) ds))"

section \<open>The handlers of the CRUD service\<close>

definition NewPostHandler :: "state \<Rightarrow> request \<Rightarrow> state \<times> response" where
  "NewPostHandler s req =
     (case jsonBody req of
        Inl err \<Rightarrow> (s, AbortWithError StatusBadRequest err new_context)
      | Inr newPostReq \<Rightarrow>
          (case AddPost s \<lparr>ID = 0, Title = reqTitle newPostReq, Body = reqBody newPostReq\<rparr> of
             (s', Inl err) \<Rightarrow> (s', AbortWithError StatusInternalServerError err new_context)
           | (s', Inr post) \<Rightarrow>
               (s', JSON StatusOK (NewPostResp (ID post) (Title post) (Body post)) new_context)))"

definition GetPostHandler :: "state \<Rightarrow> request \<Rightarrow> state \<times> response" where
  "GetPostHandler s req =
     (if idParam req = [] then (s, AbortWithStatus StatusBadRequest new_context)
      else case Atoi (idParam req) of
        Inl err \<Rightarrow> (s, AbortWithError StatusBadRequest err new_context)
      | Inr id' \<Rightarrow>
          (case GetPostByID s id' of
             Inl err \<Rightarrow>
               if err = ErrNotFound then (s, AbortWithStatus StatusNotFound new_context)
               else (s, AbortWithError StatusInternalServerError err new_context)
           | Inr post \<Rightarrow>
               (s, JSON StatusOK (GetPostResp (ID post) (Title post) (Body post)) new_context)))"

definition ListPostHanlder :: "state \<Rightarrow> request \<Rightarrow> state \<times> response" where
  "ListPostHanlder s req =
     (case GetAllPost s of
        Inl err \<Rightarrow> (s, AbortWithError StatusInternalServerError err new_context)
      | Inr posts \<Rightarrow>
          (s, JSON StatusOK
                (JArr (map (\<lambda>post. ListPostDataResp (ID post) (Title post) (Body post)) posts))
                new_context))"

definition UpdatePostHanlder :: "state \<Rightarrow> request \<Rightarrow> state \<times> response" where
  "UpdatePostHanlder s req =
     (if idParam req = [] then (s, AbortWithStatus StatusBadRequest new_context)
      else case Atoi (idParam req) of
        Inl err \<Rightarrow> (s, AbortWithError StatusBadRequest err new_context)
      | Inr id' \<Rightarrow>
          (case GetPostByID s id' of
             Inl err \<Rightarrow>
               if err = ErrNotFound then (s, AbortWithStatus StatusNotFound new_context)
               else (s, AbortWithError StatusInternalServerError err new_context)
           | Inr post \<Rightarrow>
               (case jsonBody req of
                  Inl err \<Rightarrow> (s, AbortWithError StatusBadRequest err new_context)
                | Inr updatePostReq \<Rightarrow>
                    (case UpdatePost s (post\<lparr>Body := reqBody updatePostReq,
                                               Title := reqTitle updatePostReq\<rparr>) of
                       (s', Inl err) \<Rightarrow>
                         (s', AbortWithError StatusInternalServerError err new_context)
                     | (s', Inr post') \<Rightarrow>
                         (s', JSON StatusOK
                                (UpdatePostResp (ID post') (Title post') (Body post'))
                                new_context)))))"

definition DeletePostHandler :: "state \<Rightarrow> request \<Rightarrow> state \<times> response" where
  "DeletePostHandler s req =
     (if idParam req = [] then (s, AbortWithStatus StatusBadRequest new_context)
      else case Atoi (idParam req) of
        Inl err \<Rightarrow> (s, AbortWithError StatusBadRequest err new_context)
      | Inr id' \<Rightarrow>
          (case GetPostByID s id' of
             Inl err \<Rightarrow>
               if err = ErrNotFound then (s, AbortWithStatus StatusNotFound new_context)
               else (s, AbortWithError StatusInternalServerError err new_context)
           | Inr _ \<Rightarrow>
               (case DeletePostByID s id' of
                  (s', Some err) \<Rightarrow>
                    (s', AbortWithError StatusInternalServerError err new_context)
                | (s', None) \<Rightarrow> (s', Status StatusNoContent new_context))))"

section \<open>The notifier demo\<close>

text \<open>\<^verbatim>\<open>type Action string\<close> and its three constants.\<close>

type_synonym Action = string

definition ActionCreate :: Action where "ActionCreate = ''create''"
definition ActionUpdate :: Action where "ActionUpdate = ''update''"
definition ActionDelete :: Action where "ActionDelete = ''delete''"

text \<open>
  Modelled from the spec: the declaration of the \<^verbatim>\<open>Post\<close> that the notifier demo
  uses is not among the sources. It is the spec's post (ID, title, body) with the one
  further field the demo reads, \<^verbatim>\<open>post.Author.Email\<close>.
\<close>

record Author =
  Email :: string

record AuthoredPost = Post +
  Author :: Author

text \<open>The zero value \<^verbatim>\<open>Post{}\<close>.\<close>

definition zero_Post :: AuthoredPost where
  "zero_Post = \<lparr>ID = 0, Title = [], Body = [], Author = \<lparr>Email = []\<rparr>\<rparr>"

text \<open>
  The interface \<^verbatim>\<open>EmailService\<close> has the single method \<^verbatim>\<open>SendEmail(sender,
  recipient, subject, body) error\<close>; a value of it is that method, \<open>None\<close> being the
  nil error.
\<close>

type_synonym EmailService = "string \<Rightarrow> string \<Rightarrow> string \<Rightarrow> string \<Rightarrow> error option"

text \<open>
  A value of the interface \<^verbatim>\<open>PostUpdateNotifier\<close>: its dynamic type is either
  \<^verbatim>\<open>*EmailNotifier\<close>, with the field \<^verbatim>\<open>emailService\<close>, or some other type that
  implements the interface (the \<^verbatim>\<open>*LineNotifier\<close> of \<^verbatim>\<open>main\<close>, whose declaration
  is not among the sources), given by its type name and its method
  \<^verbatim>\<open>NotifyPostUpdated\<close>.
\<close>

datatype notifier =
  EmailNotifier EmailService
| OtherNotifier string "AuthoredPost \<Rightarrow> Action \<Rightarrow> error option"

definition LineNotifier :: "(AuthoredPost \<Rightarrow> Action \<Rightarrow> error option) \<Rightarrow> notifier" where
  "LineNotifier m = OtherNotifier ''*LineNotifier'' m"

fun is_EmailNotifier :: "notifier \<Rightarrow> bool" where
  "is_EmailNotifier (EmailNotifier _) = True"
| "is_EmailNotifier (OtherNotifier _ _) = False"

text \<open>The method call \<^verbatim>\<open>notifier.NotifyPostUpdated(post, action)\<close>, dispatched on
  the dynamic type.\<close>

fun NotifyPostUpdated :: "notifier \<Rightarrow> AuthoredPost \<Rightarrow> Action \<Rightarrow> error option" where
  "NotifyPostUpdated (EmailNotifier emailService) post action =
     (let subject = ''Post Update Notification'';
          body' = ''The post has been updated with the following details:'' @ [CHR 0x0A] @
                  ''Title: '' @ Title post @ [CHR 0x0A] @
                  ''Body: '' @ Body post @ [CHR 0x0A] @
                  ''Action: '' @ action
      in emailService ''noreply@example.com'' (Email (Author post)) subject body')"
| "NotifyPostUpdated (OtherNotifier _ m) post action = m post action"

record PostHandler =
  notifiers :: "notifier list"

definition NewPostHandler_notifiers :: "notifier list \<Rightarrow> PostHandler" where
  "NewPostHandler_notifiers ns = \<lparr>notifiers = ns\<rparr>"

text \<open>
  The calls of \<^verbatim>\<open>NotifyPostUpdated\<close> that a handler makes are its effect on the
  outside world. They are kept in a log, oldest first: which notifier was called, with
  which post and action.
\<close>

type_synonym call_log = "(notifier \<times> AuthoredPost \<times> Action) list"

definition Error :: "error \<Rightarrow> response \<Rightarrow> response" where
  "Error err c = c\<lparr>errors := errors c @ [err]\<rparr>"

text \<open>
  Both variants declare \<^verbatim>\<open>UpdateHandler(c gin.Context)\<close>: the context is passed by value,
  and the handler works on its own copy of the struct. Of what it does to the copy, the
  context of the request shows what goes through the pointer in \<^verbatim>\<open>c.Writer\<close>, that is
  the status and the body written, and nothing of what the copy holds itself: the list
  \<^verbatim>\<open>c.Errors\<close> and the abort index stay those of the request's context.
\<close>

definition after_call_by_value :: "response \<Rightarrow> response \<Rightarrow> response" where
  "after_call_by_value c copy = c\<lparr>status := status copy, body := body copy\<rparr>"

text \<open>
  The \<^verbatim>\<open>for ... range h.notifiers\<close> loop of \<^verbatim>\<open>UpdateHandler\<close> in the first
  variant. It returns the log and the error at which the handler returned early, if any.
\<close>

fun notify_all :: "notifier list \<Rightarrow> AuthoredPost \<Rightarrow> call_log \<Rightarrow> call_log \<times> error option" where
  "notify_all [] post log = (log, None)"
| "notify_all (n # ns) post log =
     (case NotifyPostUpdated n post ActionUpdate of
        Some err \<Rightarrow> (log @ [(n, post, ActionUpdate)], Some err)
      | None \<Rightarrow> notify_all ns post (log @ [(n, post, ActionUpdate)]))"

definition post_updated :: json where
  "post_updated = JObj [(''status'', JStr ''post updated'')]"

text \<open>
  \<^verbatim>\<open>UpdateHandler\<close> of the first variant: from the request's context and the log to
  the log and the request's context after the call.
\<close>

definition UpdateHandler :: "PostHandler \<Rightarrow> response \<Rightarrow> call_log \<Rightarrow> call_log \<times> response" where
  "UpdateHandler h c log =
     (let copy = c;
          post = zero_Post
      in case notify_all (notifiers h) post log of
           (log', Some err) \<Rightarrow> (log', after_call_by_value c (Error err copy))
         | (log', None) \<Rightarrow> (log', after_call_by_value c (JSON 200 post_updated copy)))"

text \<open>
  The loop of \<^verbatim>\<open>UpdateHandler\<close> in \<^verbatim>\<open>lsp.go\<close>: the type switch has the single case
  \<^verbatim>\<open>*EmailNotifier\<close>, so a notifier of any other type falls through it.
\<close>

fun notify_all_lsp :: "notifier list \<Rightarrow> AuthoredPost \<Rightarrow> call_log \<Rightarrow> call_log \<times> error option" where
  "notify_all_lsp [] post log = (log, None)"
| "notify_all_lsp (n # ns) post log =
     (case n of
        EmailNotifier _ \<Rightarrow>
          (case NotifyPostUpdated n post ActionUpdate of
             Some err \<Rightarrow> (log @ [(n, post, ActionUpdate)], Some err)
           | None \<Rightarrow> notify_all_lsp ns post (log @ [(n, post, ActionUpdate)]))
      | OtherNotifier _ _ \<Rightarrow> notify_all_lsp ns post log)"

definition UpdateHandler_lsp :: "PostHandler \<Rightarrow> response \<Rightarrow> call_log \<Rightarrow> call_log \<times> response" where
  "UpdateHandler_lsp h c log =
     (let copy = c;
          post = zero_Post
      in case notify_all_lsp (notifiers h) post log of
           (log', Some err) \<Rightarrow> (log', after_call_by_value c (Error err copy))
         | (log', None) \<Rightarrow> (log', after_call_by_value c (JSON 200 post_updated copy)))"

text \<open>A run of calls to \<^verbatim>\<open>DB.AddPost\<close>, one per post of the list; it returns what
  each call returned, in order.\<close>

fun AddPost_calls :: "state \<Rightarrow> Post list \<Rightarrow> (error + Post) list" where
  "AddPost_calls s [] = []"
| "AddPost_calls s (p # ps) = (case AddPost s p of (s', r) \<Rightarrow> r # AddPost_calls s' ps)"

section \<open>Identifiers handed out by \<^verbatim>\<open>AddPost\<close>\<close>

lemma AddPost_calls_length: "length (AddPost_calls s ps) = length ps"
  by (induction ps arbitrary: s) (auto simp: AddPost_def Let_def)

text \<open>The call number \<open>i + 1\<close> returns its argument with the counter's old value plus
  \<open>i + 1\<close> as ID, in the arithmetic of the machine integer.\<close>

lemma AddPost_calls_nth:
  "i < length ps \<Longrightarrow>
   AddPost_calls s ps ! i = Inr ((ps ! i)\<lparr>ID := idPostCounter s + of_nat (Suc i)\<rparr>)"
proof (induction ps arbitrary: s i)
  case Nil
  then show ?case by simp
next
  case (Cons p ps)
  show ?case
  proof (cases i)
    case 0
    then show ?thesis by (simp add: AddPost_def Let_def)
  next
    case (Suc k)
    with Cons.prems have "k < length ps" by simp
    from Cons.IH [OF this] Suc show ?thesis
      by (simp add: AddPost_def Let_def add.assoc add.commute)
  qed
qed

lemma sint_counter_add:
  fixes c :: go_int
  assumes "sint c + int k < 2 ^ 63"
  shows "sint (c + of_nat k) = sint c + int k"
proof -
  have lo: "- (2 ^ 63) \<le> sint c + int k" using sint_ge [of c] by simp
  have "c + of_nat k = word_of_int (sint c + int k)"
    by simp
  then have "sint (c + of_nat k) = signed_take_bit 63 (sint c + int k)"
    by (simp only: signed_of_int) simp
  also have "\<dots> = sint c + int k"
    using lo assms by (rule signed_take_bit_int_eq_self)
  finally show ?thesis .
qed

text \<open>
  C1, as amended. In a run of calls to \<^verbatim>\<open>AddPost\<close> that does not take the counter
  past the largest \<^verbatim>\<open>int\<close>, \<open>2^63 - 1\<close>, every call returns a post (never an error),
  its ID is the counter's starting value plus the number of the call, and so the ID
  of a later call is strictly greater than the ID of every earlier call. From the initial
  state, where the counter is 0, that is every run of fewer than \<open>2^63\<close> calls.
\<close>

theorem AddPost_ids_increasing:
  assumes room: "sint (idPostCounter s) + int (length ps) < 2 ^ 63"
    and ij: "i < j" and j: "j < length ps"
  shows "\<exists>p q. AddPost_calls s ps ! i = Inr p \<and> AddPost_calls s ps ! j = Inr q \<and>
               sint (ID p) = sint (idPostCounter s) + int i + 1 \<and>
               sint (ID q) = sint (idPostCounter s) + int j + 1 \<and>
               sint (ID p) < sint (ID q)"
proof -
  from ij j have i: "i < length ps" by simp
  have ri: "sint (idPostCounter s + of_nat (Suc i)) = sint (idPostCounter s) + int (Suc i)"
    using room i by (intro sint_counter_add) simp
  have rj: "sint (idPostCounter s + of_nat (Suc j)) = sint (idPostCounter s) + int (Suc j)"
    using room j by (intro sint_counter_add) simp
  show ?thesis
    using AddPost_calls_nth [OF i, of s] AddPost_calls_nth [OF j, of s] ri rj ij
    by simp
qed

text \<open>Three calls from the initial state return the IDs 1, 2 and 3, whatever ID the
  argument carried.\<close>

theorem AddPost_ids_increasing_witness:
  "sint (idPostCounter init_state) +
     int (length [\<lparr>ID = 0, Title = ''a'', Body = ''x''\<rparr>, \<lparr>ID = 0, Title = ''b'', Body = ''y''\<rparr>,
                  \<lparr>ID = 7, Title = ''c'', Body = ''z''\<rparr>]) < 2 ^ 63 \<and>
   (0::nat) < 2 \<and>
   2 < length [\<lparr>ID = 0, Title = ''a'', Body = ''x''\<rparr>, \<lparr>ID = 0, Title = ''b'', Body = ''y''\<rparr>,
               \<lparr>ID = 7, Title = ''c'', Body = ''z''\<rparr>] \<and>
   AddPost_calls init_state
     [\<lparr>ID = 0, Title = ''a'', Body = ''x''\<rparr>, \<lparr>ID = 0, Title = ''b'', Body = ''y''\<rparr>,
      \<lparr>ID = 7, Title = ''c'', Body = ''z''\<rparr>]
   = [Inr \<lparr>ID = 1, Title = ''a'', Body = ''x''\<rparr>, Inr \<lparr>ID = 2, Title = ''b'', Body = ''y''\<rparr>,
      Inr \<lparr>ID = 3, Title = ''c'', Body = ''z''\<rparr>] \<and>
   sint (1 :: go_int) < sint (3 :: go_int)"
  using AddPost_ids_increasing [of init_state
     "[\<lparr>ID = 0, Title = ''a'', Body = ''x''\<rparr>, \<lparr>ID = 0, Title = ''b'', Body = ''y''\<rparr>,
       \<lparr>ID = 7, Title = ''c'', Body = ''z''\<rparr>]" 0 2]
  by (simp add: init_state_def AddPost_def Let_def)

text \<open>
  C1 as stated fails where the counter wraps around. In a run of \<open>2^63\<close> calls from the
  initial state, the call before the last returns the ID \<open>2^63 - 1\<close> and the last call
  returns \<open>- 2^63\<close>, which is smaller.
\<close>

theorem AddPost_ids_wrap_counterexample:
  "AddPost_calls init_state (replicate 9223372036854775808 \<lparr>ID = 0, Title = [], Body = []\<rparr>)
     ! 9223372036854775806 = Inr \<lparr>ID = 9223372036854775807, Title = [], Body = []\<rparr> \<and>
   AddPost_calls init_state (replicate 9223372036854775808 \<lparr>ID = 0, Title = [], Body = []\<rparr>)
     ! 9223372036854775807 = Inr \<lparr>ID = - 9223372036854775808, Title = [], Body = []\<rparr> \<and>
   sint (- 9223372036854775808 :: go_int) < sint (9223372036854775807 :: go_int)"
proof -
  let ?ps = "replicate 9223372036854775808 \<lparr>ID = 0, Title = [], Body = []\<rparr>"
  have a: "(9223372036854775806::nat) < length ?ps" by (simp only: length_replicate)
  have b: "(9223372036854775807::nat) < length ?ps" by (simp only: length_replicate)
  have pa: "?ps ! 9223372036854775806 = \<lparr>ID = 0, Title = [], Body = []\<rparr>"
    by (rule nth_replicate) simp
  have pb: "?ps ! 9223372036854775807 = \<lparr>ID = 0, Title = [], Body = []\<rparr>"
    by (rule nth_replicate) simp
  have wa: "(0 :: go_int) + of_nat (Suc 9223372036854775806) = 9223372036854775807" by simp
  have wb: "(0 :: go_int) + of_nat (Suc 9223372036854775807) = - 9223372036854775808" by simp
  have c0: "idPostCounter init_state = 0" by (simp add: init_state_def)
  have "AddPost_calls init_state ?ps ! 9223372036854775806
          = Inr \<lparr>ID = 9223372036854775807, Title = [], Body = []\<rparr>"
    unfolding AddPost_calls_nth [OF a] pa c0 wa by simp
  moreover have "AddPost_calls init_state ?ps ! 9223372036854775807
          = Inr \<lparr>ID = - 9223372036854775808, Title = [], Body = []\<rparr>"
    unfolding AddPost_calls_nth [OF b] pb c0 wb by simp
  moreover have "sint (- 9223372036854775808 :: go_int) < sint (9223372036854775807 :: go_int)"
    by simp
  ultimately show ?thesis by blast
qed

section \<open>The list of all posts\<close>

lemma cmp_Compare_le: "cmp_Compare x y \<le> 0 \<longleftrightarrow> sint x \<le> sint y"
  by (simp add: cmp_Compare_def)

lemma mset_insert_by: "mset (insert_by c x ys) = add_mset x (mset ys)"
  by (induction ys) simp_all

lemma mset_slices_SortedFunc: "mset (slices_SortedFunc xs c) = mset xs"
  by (induction xs) (simp_all add: mset_insert_by)

lemma set_insert_by: "set (insert_by c x ys) = insert x (set ys)"
  by (induction ys) auto

lemma sorted_insert_by:
  "sorted_wrt by_ID ys \<Longrightarrow>
   sorted_wrt by_ID (insert_by (\<lambda>p1 p2. cmp_Compare (ID p1) (ID p2)) x ys)"
  by (induction ys) (auto simp: set_insert_by cmp_Compare_le by_ID_def)

lemma sorted_slices_SortedFunc:
  "sorted_wrt by_ID (slices_SortedFunc xs (\<lambda>p1 p2. cmp_Compare (ID p1) (ID p2)))"
  by (induction xs) (simp_all add: sorted_insert_by)

text \<open>The values of a list with distinct keys are the values of the map it stands
  for, one for each key.\<close>

lemma mset_values_go_map:
  "distinct (map fst m) \<Longrightarrow>
   mset (map snd m) = image_mset (\<lambda>k. the (map_of m k)) (mset_set (dom (map_of m)))"
proof (induction m)
  case Nil
  then show ?case by simp
next
  case (Cons kv m)
  obtain k v where kv: "kv = (k, v)" by (cases kv)
  let ?D = "dom (map_of m)"
  from Cons.prems kv have fresh: "k \<notin> ?D" and d: "distinct (map fst m)"
    by (auto simp: dom_map_of_conv_image_fst)
  have fin: "finite ?D" by (rule finite_dom_map_of)
  have dom: "dom (map_of (kv # m)) = insert k ?D"
    by (auto simp: kv)
  have rest: "image_mset (\<lambda>k'. the (map_of (kv # m) k')) (mset_set ?D)
        = image_mset (\<lambda>k'. the (map_of m k')) (mset_set ?D)"
    using fresh fin by (intro image_mset_cong) (auto simp: kv)
  have "image_mset (\<lambda>k'. the (map_of (kv # m) k')) (mset_set (dom (map_of (kv # m))))
        = add_mset (the (map_of (kv # m) k))
            (image_mset (\<lambda>k'. the (map_of (kv # m) k')) (mset_set ?D))"
    using fresh fin by (simp add: dom del: map_of.simps)
  also have "\<dots> = add_mset v (mset (map snd m))"
    by (simp only: rest Cons.IH [OF d]) (simp add: kv)
  finally have rhs: "image_mset (\<lambda>k'. the (map_of (kv # m) k')) (mset_set (dom (map_of (kv # m))))
        = add_mset v (mset (map snd m))" .
  have "mset (map snd (kv # m)) = add_mset v (mset (map snd m))"
    by (simp add: kv)
  with rhs show ?case by (simp only:)
qed

text \<open>Every state that the program reaches holds a list with distinct keys.\<close>

lemma is_go_map_init: "is_go_map (inmemoryPostDB init_state)"
  by (simp add: is_go_map_def init_state_def)

lemma is_go_map_AddPost:
  "is_go_map (inmemoryPostDB s) \<Longrightarrow> is_go_map (inmemoryPostDB (fst (AddPost s p)))"
  by (simp add: is_go_map_def AddPost_def Let_def AList.distinct_update)

lemma is_go_map_UpdatePost:
  "is_go_map (inmemoryPostDB s) \<Longrightarrow> is_go_map (inmemoryPostDB (fst (UpdatePost s p)))"
  by (simp add: is_go_map_def UpdatePost_def AList.distinct_update)

lemma is_go_map_DeletePostByID:
  "is_go_map (inmemoryPostDB s) \<Longrightarrow> is_go_map (inmemoryPostDB (fst (DeletePostByID s i)))"
  by (simp add: is_go_map_def DeletePostByID_def AList.distinct_delete)

text \<open>A list without two posts of the same ID has one sorted arrangement only, so on
  such a list every sorting algorithm returns what the model returns.\<close>

lemma sorted_by_ID_unique:
  assumes xs: "sorted_wrt by_ID xs" and ys: "sorted_wrt by_ID ys"
    and d: "distinct (map ID xs)" and m: "mset xs = mset ys"
  shows "xs = ys"
proof -
  let ?f = "\<lambda>p. sint (ID p)"
  have inj: "inj (sint :: go_int \<Rightarrow> int)"
    by (rule injI) (rule signed_word_eqI)
  have dx: "distinct (map ?f xs)"
    using d inj by (simp add: distinct_map inj_on_def comp_def)
  have mm: "mset (map ?f xs) = mset (map ?f ys)"
    using m by simp
  from dx mm have dy: "distinct (map ?f ys)"
    using mset_eq_imp_distinct_iff [OF mm] by (simp only:)
  have sx: "sorted (map ?f xs)" and sy: "sorted (map ?f ys)"
    using xs ys by (simp_all add: sorted_wrt_map by_ID_def [abs_def])
  from mm have "set (map ?f xs) = set (map ?f ys)"
    by (rule mset_eq_setD)
  with sx sy dx dy have eq: "map ?f xs = map ?f ys"
    by (intro sorted_distinct_set_unique)
  from m have "set xs = set ys" by (rule mset_eq_setD)
  moreover from dx have "inj_on ?f (set xs)" by (simp add: distinct_map)
  ultimately have "inj_on ?f (set xs \<union> set ys)" by simp
  with eq show ?thesis by (rule map_inj_on)
qed

lemma keys_are_IDs_distinct:
  "distinct (map fst m) \<Longrightarrow> keys_are_IDs m \<Longrightarrow> distinct (map ID (map snd m))"
proof -
  assume d: "distinct (map fst m)" and k: "keys_are_IDs m"
  from k have "map ID (map snd m) = map fst m"
    by (induction m) (auto simp: keys_are_IDs_def)
  with d show ?thesis by (simp only:)
qed

lemma set_AList_update:
  "x \<in> set (AList.update k v m) \<Longrightarrow> x = (k, v) \<or> x \<in> set m"
  by (induction m) (auto split: if_splits)

lemma keys_are_IDs_init: "keys_are_IDs (inmemoryPostDB init_state)"
  by (simp add: keys_are_IDs_def init_state_def)

lemma keys_are_IDs_AddPost:
  "keys_are_IDs (inmemoryPostDB s) \<Longrightarrow> keys_are_IDs (inmemoryPostDB (fst (AddPost s p)))"
  by (auto simp: keys_are_IDs_def AddPost_def Let_def list_all_iff dest!: set_AList_update)

lemma keys_are_IDs_UpdatePost:
  "keys_are_IDs (inmemoryPostDB s) \<Longrightarrow> keys_are_IDs (inmemoryPostDB (fst (UpdatePost s p)))"
  by (auto simp: keys_are_IDs_def UpdatePost_def list_all_iff dest!: set_AList_update)

lemma keys_are_IDs_DeletePostByID:
  "keys_are_IDs (inmemoryPostDB s) \<Longrightarrow> keys_are_IDs (inmemoryPostDB (fst (DeletePostByID s i)))"
  by (auto simp: keys_are_IDs_def DeletePostByID_def list_all_iff AList.delete_eq)

text \<open>
  C2. In every state of the store, \<^verbatim>\<open>GetAllPost\<close> returns a list (never an error)
  that is sorted by ascending ID and holds exactly the stored posts: one post for each
  key of the map, the one stored under it. \<^verbatim>\<open>GET /posts\<close> answers 200 with that list
  and leaves the state as it is. The state is arbitrary, so this holds whatever the order
  of the insertions and updates that led to it. Moreover, where every post is stored
  under its own ID, as \<^verbatim>\<open>AddPost\<close> and \<^verbatim>\<open>UpdatePost\<close> store it, the list is the same
  for every state that holds the same entries, whatever their order in the map.
\<close>

theorem GetAllPost_sorted:
  assumes "is_go_map (inmemoryPostDB s)"
  shows "\<exists>posts. GetAllPost s = Inr posts \<and>
           sorted_wrt (\<lambda>p q. sint (ID p) \<le> sint (ID q)) posts \<and>
           mset posts = image_mset (\<lambda>k. the (map_of (inmemoryPostDB s) k))
                          (mset_set (dom (map_of (inmemoryPostDB s)))) \<and>
           ListPostHanlder s req =
             (s, JSON 200 (JArr (map (\<lambda>p. ListPostDataResp (ID p) (Title p) (Body p)) posts))
                   new_context) \<and>
           (keys_are_IDs (inmemoryPostDB s) \<longrightarrow>
              (\<forall>s' :: state. is_go_map (inmemoryPostDB s') \<and>
                    map_of (inmemoryPostDB s') = map_of (inmemoryPostDB s) \<longrightarrow>
                    GetAllPost s' = Inr posts))"
proof -
  let ?c = "\<lambda>p1 p2. cmp_Compare (ID p1) (ID p2)"
  let ?posts = "slices_SortedFunc (maps_Values (inmemoryPostDB s)) ?c"
  have "GetAllPost s = Inr ?posts"
    by (simp add: GetAllPost_def)
  moreover have "sorted_wrt (\<lambda>p q. sint (ID p) \<le> sint (ID q)) ?posts"
    using sorted_slices_SortedFunc [of "maps_Values (inmemoryPostDB s)"]
    by (simp add: by_ID_def [abs_def])
  moreover have "mset ?posts = image_mset (\<lambda>k. the (map_of (inmemoryPostDB s) k))
                          (mset_set (dom (map_of (inmemoryPostDB s))))"
    using assms mset_values_go_map [of "inmemoryPostDB s"]
    by (simp only: mset_slices_SortedFunc maps_Values_def is_go_map_def)
  moreover have "ListPostHanlder s req =
             (s, JSON 200 (JArr (map (\<lambda>p. ListPostDataResp (ID p) (Title p) (Body p)) ?posts))
                   new_context)"
    by (simp add: ListPostHanlder_def GetAllPost_def StatusOK_def)
  moreover have "keys_are_IDs (inmemoryPostDB s) \<longrightarrow>
              (\<forall>s' :: state. is_go_map (inmemoryPostDB s') \<and>
                    map_of (inmemoryPostDB s') = map_of (inmemoryPostDB s) \<longrightarrow>
                    GetAllPost s' = Inr ?posts)"
  proof (intro impI allI)
    fix s' :: state
    assume ids: "keys_are_IDs (inmemoryPostDB s)"
      and s': "is_go_map (inmemoryPostDB s') \<and>
               map_of (inmemoryPostDB s') = map_of (inmemoryPostDB s)"
    let ?posts' = "slices_SortedFunc (maps_Values (inmemoryPostDB s')) ?c"
    have m: "mset ?posts = mset ?posts'"
      using assms s'
      by (simp only: mset_slices_SortedFunc maps_Values_def is_go_map_def mset_values_go_map)
    have "distinct (map ID (map snd (inmemoryPostDB s)))"
      using assms ids unfolding is_go_map_def by (rule keys_are_IDs_distinct)
    moreover have "mset (map ID ?posts) = mset (map ID (map snd (inmemoryPostDB s)))"
      by (simp only: mset_map mset_slices_SortedFunc maps_Values_def)
    then have "distinct (map ID ?posts) = distinct (map ID (map snd (inmemoryPostDB s)))"
      by (rule mset_eq_imp_distinct_iff)
    ultimately have "distinct (map ID ?posts)" by (simp only:)
    with sorted_slices_SortedFunc [of "maps_Values (inmemoryPostDB s)"]
      sorted_slices_SortedFunc [of "maps_Values (inmemoryPostDB s')"] m
    have "?posts = ?posts'" by (intro sorted_by_ID_unique)
    then show "GetAllPost s' = Inr ?posts" by (simp add: GetAllPost_def)
  qed
  ultimately show ?thesis by blast
qed

text \<open>A store whose entries sit in the order 2, -1, 1 is listed as -1, 1, 2, and so is
  the store that holds them in the order 1, 2, -1.\<close>

theorem GetAllPost_sorted_witness:
  "is_go_map (inmemoryPostDB
      \<lparr>inmemoryPostDB = [(2, \<lparr>ID = 2, Title = ''b'', Body = ''y''\<rparr>),
                         (- 1, \<lparr>ID = - 1, Title = ''c'', Body = ''z''\<rparr>),
                         (1, \<lparr>ID = 1, Title = ''a'', Body = ''x''\<rparr>)],
       idPostCounter = 2\<rparr>) \<and>
   keys_are_IDs (inmemoryPostDB
      \<lparr>inmemoryPostDB = [(2, \<lparr>ID = 2, Title = ''b'', Body = ''y''\<rparr>),
                         (- 1, \<lparr>ID = - 1, Title = ''c'', Body = ''z''\<rparr>),
                         (1, \<lparr>ID = 1, Title = ''a'', Body = ''x''\<rparr>)],
       idPostCounter = 2\<rparr>) \<and>
   GetAllPost
      \<lparr>inmemoryPostDB = [(2, \<lparr>ID = 2, Title = ''b'', Body = ''y''\<rparr>),
                         (- 1, \<lparr>ID = - 1, Title = ''c'', Body = ''z''\<rparr>),
                         (1, \<lparr>ID = 1, Title = ''a'', Body = ''x''\<rparr>)],
       idPostCounter = 2\<rparr>
     = Inr [\<lparr>ID = - 1, Title = ''c'', Body = ''z''\<rparr>, \<lparr>ID = 1, Title = ''a'', Body = ''x''\<rparr>,
            \<lparr>ID = 2, Title = ''b'', Body = ''y''\<rparr>] \<and>
   GetAllPost
      \<lparr>inmemoryPostDB = [(1, \<lparr>ID = 1, Title = ''a'', Body = ''x''\<rparr>),
                         (2, \<lparr>ID = 2, Title = ''b'', Body = ''y''\<rparr>),
                         (- 1, \<lparr>ID = - 1, Title = ''c'', Body = ''z''\<rparr>)],
       idPostCounter = 2\<rparr>
     = Inr [\<lparr>ID = - 1, Title = ''c'', Body = ''z''\<rparr>, \<lparr>ID = 1, Title = ''a'', Body = ''x''\<rparr>,
            \<lparr>ID = 2, Title = ''b'', Body = ''y''\<rparr>]"
  using GetAllPost_sorted [of
      "\<lparr>inmemoryPostDB = [(2, \<lparr>ID = 2, Title = ''b'', Body = ''y''\<rparr>),
                         (- 1, \<lparr>ID = - 1, Title = ''c'', Body = ''z''\<rparr>),
                         (1, \<lparr>ID = 1, Title = ''a'', Body = ''x''\<rparr>)],
        idPostCounter = 2\<rparr>" "\<lparr>idParam = [], jsonBody = Inl NumError\<rparr>"]
  by (simp add: is_go_map_def keys_are_IDs_def GetAllPost_def maps_Values_def cmp_Compare_def)

section \<open>The handlers and the path parameter\<close>

lemma parse_digits_None:
  "parse_digits n ds = None \<longleftrightarrow> \<not> list_all (\<lambda>d. digit_of d \<noteq> None) ds"
  by (induction ds arbitrary: n) (auto split: option.splits)

lemma Atoi_Nil: "Atoi [] = Inl NumError"
  by (simp add: Atoi_def)

text \<open>\<^verbatim>\<open>strconv.Atoi\<close> rejects every string that is not numeric.\<close>

lemma Atoi_non_numeral:
  assumes "\<not> is_numeral s"
  shows "Atoi s = Inl NumError"
proof (cases s)
  case Nil
  then show ?thesis by (simp add: Atoi_Nil)
next
  case (Cons ch cs)
  define ds where "ds = (if ch = CHR ''-'' \<or> ch = CHR ''+'' then cs else s)"
  have A: "Atoi s =
     (if ds = [] then Inl NumError
      else (case parse_digits 0 ds of
              None \<Rightarrow> Inl NumError
            | Some n \<Rightarrow>
                if ch = CHR ''-'' then (if n \<le> 2 ^ 63 then Inr (- word_of_nat n) else Inl NumError)
                else (if n < 2 ^ 63 then Inr (word_of_nat n) else Inl NumError)))"
    unfolding Atoi_def Cons ds_def Let_def list.case by (simp only: Cons)
  from assms have "ds = [] \<or> \<not> list_all (\<lambda>d. digit_of d \<noteq> None) ds"
    unfolding is_numeral_def Cons ds_def Let_def list.case
    by (simp only: Cons de_Morgan_conj) blast
  then have "ds = [] \<or> parse_digits 0 ds = None"
    by (simp only: parse_digits_None)
  then show ?thesis
    unfolding A by auto
qed

lemma Atoi_Inr_non_empty: "Atoi s = Inr i \<Longrightarrow> s \<noteq> []"
  by (auto simp: Atoi_Nil)

lemmas status_defs = StatusOK_def StatusNoContent_def StatusBadRequest_def StatusNotFound_def
  StatusInternalServerError_def

lemmas context_defs = new_context_def AbortWithStatus_def AbortWithError_def JSON_def Status_def

text \<open>
  C3. When the path parameter of \<^verbatim>\<open>PATCH /posts/:id\<close> is read as an id under which the
  store holds nothing, the handler answers 404 and returns the state it was given: no
  entry is added, removed or modified, and the counter is as it was. The request body
  plays no part.
\<close>

theorem update_unknown_404:
  assumes "Atoi (idParam req) = Inr i" and "map_of (inmemoryPostDB s) i = None"
  shows "UpdatePostHanlder s req = (s, AbortWithStatus StatusNotFound new_context) \<and>
         status (snd (UpdatePostHanlder s req)) = 404"
  using assms Atoi_Inr_non_empty [of "idParam req" i]
  by (simp add: UpdatePostHanlder_def GetPostByID_def status_defs context_defs)

theorem update_unknown_404_witness:
  "Atoi (idParam \<lparr>idParam = ''5'', jsonBody = Inr \<lparr>reqTitle = ''t'', reqBody = ''b''\<rparr>\<rparr>) = Inr 5 \<and>
   map_of (inmemoryPostDB
      \<lparr>inmemoryPostDB = [(1, \<lparr>ID = 1, Title = ''a'', Body = ''x''\<rparr>)], idPostCounter = 1\<rparr>) 5
     = None \<and>
   UpdatePostHanlder
      \<lparr>inmemoryPostDB = [(1, \<lparr>ID = 1, Title = ''a'', Body = ''x''\<rparr>)], idPostCounter = 1\<rparr>
      \<lparr>idParam = ''5'', jsonBody = Inr \<lparr>reqTitle = ''t'', reqBody = ''b''\<rparr>\<rparr>
     = (\<lparr>inmemoryPostDB = [(1, \<lparr>ID = 1, Title = ''a'', Body = ''x''\<rparr>)], idPostCounter = 1\<rparr>,
        \<lparr>status = 404, body = None, errors = [], aborted = True\<rparr>)"
  using update_unknown_404 [of "\<lparr>idParam = ''5'', jsonBody = Inr \<lparr>reqTitle = ''t'', reqBody = ''b''\<rparr>\<rparr>" 5
      "\<lparr>inmemoryPostDB = [(1, \<lparr>ID = 1, Title = ''a'', Body = ''x''\<rparr>)], idPostCounter = 1\<rparr>"]
  by (simp add: Atoi_def digit_of_def status_defs context_defs)

text \<open>
  C4. When the path parameter is read as an id under which the store holds nothing,
  \<^verbatim>\<open>GET /posts/:id\<close> and \<^verbatim>\<open>DELETE /posts/:id\<close> answer 404, and both return the state
  they were given, so the delete handler removes nothing.
\<close>

theorem get_delete_unknown_404:
  assumes "Atoi (idParam req) = Inr i" and "map_of (inmemoryPostDB s) i = None"
  shows "GetPostHandler s req = (s, AbortWithStatus StatusNotFound new_context) \<and>
         status (snd (GetPostHandler s req)) = 404 \<and>
         DeletePostHandler s req = (s, AbortWithStatus StatusNotFound new_context) \<and>
         status (snd (DeletePostHandler s req)) = 404"
  using assms Atoi_Inr_non_empty [of "idParam req" i]
  by (simp add: GetPostHandler_def DeletePostHandler_def GetPostByID_def status_defs context_defs)

theorem get_delete_unknown_404_witness:
  "Atoi (idParam \<lparr>idParam = ''-3'', jsonBody = Inl (OtherError ''EOF'')\<rparr>) = Inr (- 3) \<and>
   map_of (inmemoryPostDB
      \<lparr>inmemoryPostDB = [(1, \<lparr>ID = 1, Title = ''a'', Body = ''x''\<rparr>)], idPostCounter = 1\<rparr>) (- 3)
     = None \<and>
   GetPostHandler
      \<lparr>inmemoryPostDB = [(1, \<lparr>ID = 1, Title = ''a'', Body = ''x''\<rparr>)], idPostCounter = 1\<rparr>
      \<lparr>idParam = ''-3'', jsonBody = Inl (OtherError ''EOF'')\<rparr>
     = (\<lparr>inmemoryPostDB = [(1, \<lparr>ID = 1, Title = ''a'', Body = ''x''\<rparr>)], idPostCounter = 1\<rparr>,
        \<lparr>status = 404, body = None, errors = [], aborted = True\<rparr>) \<and>
   DeletePostHandler
      \<lparr>inmemoryPostDB = [(1, \<lparr>ID = 1, Title = ''a'', Body = ''x''\<rparr>)], idPostCounter = 1\<rparr>
      \<lparr>idParam = ''-3'', jsonBody = Inl (OtherError ''EOF'')\<rparr>
     = (\<lparr>inmemoryPostDB = [(1, \<lparr>ID = 1, Title = ''a'', Body = ''x''\<rparr>)], idPostCounter = 1\<rparr>,
        \<lparr>status = 404, body = None, errors = [], aborted = True\<rparr>)"
  using get_delete_unknown_404 [of "\<lparr>idParam = ''-3'', jsonBody = Inl (OtherError ''EOF'')\<rparr>" "- 3"
      "\<lparr>inmemoryPostDB = [(1, \<lparr>ID = 1, Title = ''a'', Body = ''x''\<rparr>)], idPostCounter = 1\<rparr>"]
  by (simp add: Atoi_def digit_of_def status_defs context_defs)

text \<open>
  C5. When the path parameter of \<^verbatim>\<open>DELETE /posts/:id\<close> is read as an id under which the
  store holds a post, the handler removes the entry and answers 204, and in the state it
  returns \<^verbatim>\<open>GET /posts/:id\<close> for the same id answers 404.
\<close>

theorem get_after_delete_404:
  assumes "Atoi (idParam req) = Inr i" and "map_of (inmemoryPostDB s) i = Some p"
    and "Atoi (idParam req') = Inr i"
  shows "DeletePostHandler s req =
           (s\<lparr>inmemoryPostDB := AList.delete i (inmemoryPostDB s)\<rparr>,
            Status StatusNoContent new_context) \<and>
         status (snd (DeletePostHandler s req)) = 204 \<and>
         GetPostHandler (fst (DeletePostHandler s req)) req' =
           (fst (DeletePostHandler s req), AbortWithStatus StatusNotFound new_context) \<and>
         status (snd (GetPostHandler (fst (DeletePostHandler s req)) req')) = 404"
  using assms Atoi_Inr_non_empty [of "idParam req" i] Atoi_Inr_non_empty [of "idParam req'" i]
  by (simp add: GetPostHandler_def DeletePostHandler_def GetPostByID_def DeletePostByID_def
      status_defs context_defs AList.delete_conv')

theorem get_after_delete_404_witness:
  "Atoi (idParam \<lparr>idParam = ''1'', jsonBody = Inl (OtherError ''EOF'')\<rparr>) = Inr 1 \<and>
   map_of (inmemoryPostDB
      \<lparr>inmemoryPostDB = [(1, \<lparr>ID = 1, Title = ''a'', Body = ''x''\<rparr>),
                         (2, \<lparr>ID = 2, Title = ''b'', Body = ''y''\<rparr>)], idPostCounter = 2\<rparr>) 1
     = Some \<lparr>ID = 1, Title = ''a'', Body = ''x''\<rparr> \<and>
   Atoi (idParam \<lparr>idParam = ''+1'', jsonBody = Inl (OtherError ''EOF'')\<rparr>) = Inr 1 \<and>
   DeletePostHandler
      \<lparr>inmemoryPostDB = [(1, \<lparr>ID = 1, Title = ''a'', Body = ''x''\<rparr>),
                         (2, \<lparr>ID = 2, Title = ''b'', Body = ''y''\<rparr>)], idPostCounter = 2\<rparr>
      \<lparr>idParam = ''1'', jsonBody = Inl (OtherError ''EOF'')\<rparr>
     = (\<lparr>inmemoryPostDB = [(2, \<lparr>ID = 2, Title = ''b'', Body = ''y''\<rparr>)], idPostCounter = 2\<rparr>,
        \<lparr>status = 204, body = None, errors = [], aborted = False\<rparr>) \<and>
   GetPostHandler
      \<lparr>inmemoryPostDB = [(2, \<lparr>ID = 2, Title = ''b'', Body = ''y''\<rparr>)], idPostCounter = 2\<rparr>
      \<lparr>idParam = ''+1'', jsonBody = Inl (OtherError ''EOF'')\<rparr>
     = (\<lparr>inmemoryPostDB = [(2, \<lparr>ID = 2, Title = ''b'', Body = ''y''\<rparr>)], idPostCounter = 2\<rparr>,
        \<lparr>status = 404, body = None, errors = [], aborted = True\<rparr>)"
  using get_after_delete_404 [of "\<lparr>idParam = ''1'', jsonBody = Inl (OtherError ''EOF'')\<rparr>" 1
      "\<lparr>inmemoryPostDB = [(1, \<lparr>ID = 1, Title = ''a'', Body = ''x''\<rparr>),
                         (2, \<lparr>ID = 2, Title = ''b'', Body = ''y''\<rparr>)], idPostCounter = 2\<rparr>"
      "\<lparr>ID = 1, Title = ''a'', Body = ''x''\<rparr>"
      "\<lparr>idParam = ''+1'', jsonBody = Inl (OtherError ''EOF'')\<rparr>"]
  by (simp add: Atoi_def digit_of_def status_defs context_defs DeletePostHandler_def
      GetPostHandler_def GetPostByID_def DeletePostByID_def)

text \<open>
  C6, as amended. When \<^verbatim>\<open>c.ShouldBindJSON\<close> returns an error on the body of the
  request, \<^verbatim>\<open>POST /posts\<close> answers 400. \<^verbatim>\<open>PATCH /posts/:id\<close> looks the post up before
  it binds the body: it answers 404 where \<^verbatim>\<open>strconv.Atoi\<close> reads the path parameter as
  an \<^verbatim>\<open>int\<close> under which the store holds nothing, and 400 in every other case, that is
  where the store holds a post under it and where \<^verbatim>\<open>strconv.Atoi\<close> rejects the parameter
  (a numeral out of the range of \<^verbatim>\<open>int\<close> among them). A missing or non-numeric path
  parameter makes \<^verbatim>\<open>GET\<close>, \<^verbatim>\<open>PATCH\<close> and \<^verbatim>\<open>DELETE /posts/:id\<close> answer 400,
  whatever the body. In all these cases the state is left as it was.
\<close>

theorem bad_request_400:
  "(jsonBody req = Inl e \<longrightarrow>
      NewPostHandler s req = (s, AbortWithError StatusBadRequest e new_context) \<and>
      status (snd (NewPostHandler s req)) = 400 \<and>
      fst (UpdatePostHanlder s req) = s \<and>
      status (snd (UpdatePostHanlder s req)) =
        (case Atoi (idParam req) of
           Inl _ \<Rightarrow> 400
         | Inr i \<Rightarrow> (case map_of (inmemoryPostDB s) i of None \<Rightarrow> 404 | Some _ \<Rightarrow> 400))) \<and>
   (idParam req = [] \<or> \<not> is_numeral (idParam req) \<longrightarrow>
      fst (GetPostHandler s req) = s \<and> status (snd (GetPostHandler s req)) = 400 \<and>
      fst (UpdatePostHanlder s req) = s \<and> status (snd (UpdatePostHanlder s req)) = 400 \<and>
      fst (DeletePostHandler s req) = s \<and> status (snd (DeletePostHandler s req)) = 400)"
proof (intro conjI impI)
  assume b: "jsonBody req = Inl e"
  then show "NewPostHandler s req = (s, AbortWithError StatusBadRequest e new_context)"
    by (simp add: NewPostHandler_def)
  from b show "status (snd (NewPostHandler s req)) = 400"
    by (simp add: NewPostHandler_def status_defs context_defs)
  from b show "fst (UpdatePostHanlder s req) = s"
    by (simp add: UpdatePostHanlder_def GetPostByID_def split: sum.splits option.splits)
  from b show "status (snd (UpdatePostHanlder s req)) =
        (case Atoi (idParam req) of
           Inl _ \<Rightarrow> 400
         | Inr i \<Rightarrow> (case map_of (inmemoryPostDB s) i of None \<Rightarrow> 404 | Some _ \<Rightarrow> 400))"
    by (auto simp: UpdatePostHanlder_def GetPostByID_def status_defs context_defs Atoi_Nil
        split: sum.splits option.splits)
next
  assume "idParam req = [] \<or> \<not> is_numeral (idParam req)"
  moreover have "\<not> is_numeral []" by (simp add: is_numeral_def)
  ultimately have "\<not> is_numeral (idParam req)" by auto
  then have a: "Atoi (idParam req) = Inl NumError" by (rule Atoi_non_numeral)
  show "fst (GetPostHandler s req) = s" "status (snd (GetPostHandler s req)) = 400"
    using a by (simp_all add: GetPostHandler_def status_defs context_defs)
  show "fst (UpdatePostHanlder s req) = s" "status (snd (UpdatePostHanlder s req)) = 400"
    using a by (simp_all add: UpdatePostHanlder_def status_defs context_defs)
  show "fst (DeletePostHandler s req) = s" "status (snd (DeletePostHandler s req)) = 400"
    using a by (simp_all add: DeletePostHandler_def status_defs context_defs)
qed

text \<open>
  A body that does not bind, with the non-numeric parameter \<^verbatim>\<open>12a\<close>; a missing
  parameter; a body that does not bind, with the id of a stored post; a body that does
  not bind, with a numeral that is out of the range of \<^verbatim>\<open>int\<close>: 400 each time.
\<close>

theorem bad_request_400_witness:
  "jsonBody \<lparr>idParam = ''12a'', jsonBody = Inl (OtherError ''unexpected EOF'')\<rparr>
     = Inl (OtherError ''unexpected EOF'') \<and>
   \<not> is_numeral (idParam \<lparr>idParam = ''12a'', jsonBody = Inl (OtherError ''unexpected EOF'')\<rparr>) \<and>
   status (snd (NewPostHandler init_state
                  \<lparr>idParam = ''12a'', jsonBody = Inl (OtherError ''unexpected EOF'')\<rparr>)) = 400 \<and>
   status (snd (GetPostHandler init_state
                  \<lparr>idParam = ''12a'', jsonBody = Inl (OtherError ''unexpected EOF'')\<rparr>)) = 400 \<and>
   status (snd (UpdatePostHanlder init_state
                  \<lparr>idParam = ''12a'', jsonBody = Inl (OtherError ''unexpected EOF'')\<rparr>)) = 400 \<and>
   status (snd (DeletePostHandler init_state
                  \<lparr>idParam = ''12a'', jsonBody = Inl (OtherError ''unexpected EOF'')\<rparr>)) = 400 \<and>
   status (snd (GetPostHandler init_state
                  \<lparr>idParam = [], jsonBody = Inr \<lparr>reqTitle = ''t'', reqBody = ''b''\<rparr>\<rparr>)) = 400 \<and>
   UpdatePostHanlder
      \<lparr>inmemoryPostDB = [(1, \<lparr>ID = 1, Title = ''a'', Body = ''x''\<rparr>)], idPostCounter = 1\<rparr>
      \<lparr>idParam = ''1'', jsonBody = Inl (OtherError ''unexpected EOF'')\<rparr>
     = (\<lparr>inmemoryPostDB = [(1, \<lparr>ID = 1, Title = ''a'', Body = ''x''\<rparr>)], idPostCounter = 1\<rparr>,
        \<lparr>status = 400, body = None, errors = [OtherError ''unexpected EOF''], aborted = True\<rparr>) \<and>
   Atoi ''99999999999999999999'' = Inl NumError \<and>
   status (snd (UpdatePostHanlder init_state
                  \<lparr>idParam = ''99999999999999999999'',
                   jsonBody = Inl (OtherError ''unexpected EOF'')\<rparr>)) = 400"
  using bad_request_400 [of "\<lparr>idParam = ''12a'', jsonBody = Inl (OtherError ''unexpected EOF'')\<rparr>"
      "OtherError ''unexpected EOF''" init_state]
    bad_request_400 [of "\<lparr>idParam = [], jsonBody = Inr \<lparr>reqTitle = ''t'', reqBody = ''b''\<rparr>\<rparr>"
      "OtherError ''unexpected EOF''" init_state]
    bad_request_400 [of "\<lparr>idParam = ''1'', jsonBody = Inl (OtherError ''unexpected EOF'')\<rparr>"
      "OtherError ''unexpected EOF''"
      "\<lparr>inmemoryPostDB = [(1, \<lparr>ID = 1, Title = ''a'', Body = ''x''\<rparr>)], idPostCounter = 1\<rparr>"]
    bad_request_400 [of "\<lparr>idParam = ''99999999999999999999'',
                          jsonBody = Inl (OtherError ''unexpected EOF'')\<rparr>"
      "OtherError ''unexpected EOF''" init_state]
  by (simp add: is_numeral_def Atoi_def digit_of_def UpdatePostHanlder_def GetPostByID_def
      status_defs context_defs)

text \<open>
  C6 as stated fails for \<^verbatim>\<open>PATCH /posts/7\<close> on the empty store with a body on which
  \<^verbatim>\<open>c.ShouldBindJSON\<close> returns an error, such as an object that breaks off: the answer
  is 404, not 400.
\<close>

theorem patch_malformed_unknown_counterexample:
  "jsonBody \<lparr>idParam = ''7'', jsonBody = Inl (OtherError ''unexpected EOF'')\<rparr>
     = Inl (OtherError ''unexpected EOF'') \<and>
   status (snd (UpdatePostHanlder init_state
                  \<lparr>idParam = ''7'', jsonBody = Inl (OtherError ''unexpected EOF'')\<rparr>)) = 404 \<and>
   status (snd (UpdatePostHanlder init_state
                  \<lparr>idParam = ''7'', jsonBody = Inl (OtherError ''unexpected EOF'')\<rparr>)) \<noteq> 400"
  by (simp add: UpdatePostHanlder_def GetPostByID_def Atoi_def digit_of_def init_state_def
      status_defs context_defs)

text \<open>
  C8. For every well-formed body \<^verbatim>\<open>{title, body}\<close>, \<^verbatim>\<open>POST /posts\<close> answers with status
  200, which is one of the two the claim allows, and with the object
  \<^verbatim>\<open>{id, title, body}\<close> whose title and body are those of the request and whose id is
  the newly assigned one: the counter's new value, under which the store now holds the
  post.
\<close>

theorem new_post_response:
  assumes "jsonBody req = Inr r"
  shows "NewPostHandler s req =
           (s\<lparr>idPostCounter := idPostCounter s + 1,
              inmemoryPostDB :=
                AList.update (idPostCounter s + 1)
                  \<lparr>ID = idPostCounter s + 1, Title = reqTitle r, Body = reqBody r\<rparr>
                  (inmemoryPostDB s)\<rparr>,
            JSON StatusOK (NewPostResp (idPostCounter s + 1) (reqTitle r) (reqBody r)) new_context) \<and>
         status (snd (NewPostHandler s req)) = 200 \<and>
         body (snd (NewPostHandler s req)) =
           Some (JObj [(''id'', JInt (idPostCounter s + 1)), (''title'', JStr (reqTitle r)),
                       (''body'', JStr (reqBody r))]) \<and>
         idPostCounter (fst (NewPostHandler s req)) = idPostCounter s + 1 \<and>
         GetPostByID (fst (NewPostHandler s req)) (idPostCounter s + 1) =
           Inr \<lparr>ID = idPostCounter s + 1, Title = reqTitle r, Body = reqBody r\<rparr>"
  using assms
  by (simp add: NewPostHandler_def AddPost_def Let_def GetPostByID_def NewPostResp_def
      status_defs context_defs AList.update_conv')

theorem new_post_response_witness:
  "jsonBody \<lparr>idParam = [], jsonBody = Inr \<lparr>reqTitle = ''hello'', reqBody = ''world''\<rparr>\<rparr>
     = Inr \<lparr>reqTitle = ''hello'', reqBody = ''world''\<rparr> \<and>
   NewPostHandler
      \<lparr>inmemoryPostDB = [(1, \<lparr>ID = 1, Title = ''a'', Body = ''x''\<rparr>)], idPostCounter = 1\<rparr>
      \<lparr>idParam = [], jsonBody = Inr \<lparr>reqTitle = ''hello'', reqBody = ''world''\<rparr>\<rparr>
     = (\<lparr>inmemoryPostDB = [(1, \<lparr>ID = 1, Title = ''a'', Body = ''x''\<rparr>),
                           (2, \<lparr>ID = 2, Title = ''hello'', Body = ''world''\<rparr>)],
         idPostCounter = 2\<rparr>,
        \<lparr>status = 200,
         body = Some (JObj [(''id'', JInt 2), (''title'', JStr ''hello''),
                            (''body'', JStr ''world'')]),
         errors = [], aborted = False\<rparr>)"
  using new_post_response [of
      "\<lparr>idParam = [], jsonBody = Inr \<lparr>reqTitle = ''hello'', reqBody = ''world''\<rparr>\<rparr>"
      "\<lparr>reqTitle = ''hello'', reqBody = ''world''\<rparr>"
      "\<lparr>inmemoryPostDB = [(1, \<lparr>ID = 1, Title = ''a'', Body = ''x''\<rparr>)], idPostCounter = 1\<rparr>"]
  by (simp add: NewPostResp_def status_defs context_defs)

text \<open>
  C9. \<^verbatim>\<open>DB.UpdatePost\<close> has no condition: for every post it returns the post and the nil
  error, and afterwards the store maps the post's ID to the post and every other key to
  what it held before; the counter is not touched. So where the store held nothing under
  that ID, where \<^verbatim>\<open>GetPostByID\<close> reported \<^verbatim>\<open>ErrNotFound\<close>, the call creates the entry.
  The check that answers 404 for an unknown id is made by the handler, before it calls
  \<^verbatim>\<open>UpdatePost\<close>.
\<close>

theorem UpdatePost_upsert:
  "snd (UpdatePost s p) = Inr p \<and>
   map_of (inmemoryPostDB (fst (UpdatePost s p))) = (map_of (inmemoryPostDB s))(ID p \<mapsto> p) \<and>
   idPostCounter (fst (UpdatePost s p)) = idPostCounter s \<and>
   (map_of (inmemoryPostDB s) (ID p) = None \<longrightarrow>
      GetPostByID s (ID p) = Inl ErrNotFound \<and>
      GetPostByID (fst (UpdatePost s p)) (ID p) = Inr p)"
  by (simp add: UpdatePost_def GetPostByID_def AList.update_conv')

theorem UpdatePost_upsert_witness:
  "map_of (inmemoryPostDB init_state) (ID \<lparr>ID = 42, Title = ''t'', Body = ''b''\<rparr>) = None \<and>
   GetPostByID init_state 42 = Inl ErrNotFound \<and>
   UpdatePost init_state \<lparr>ID = 42, Title = ''t'', Body = ''b''\<rparr>
     = (\<lparr>inmemoryPostDB = [(42, \<lparr>ID = 42, Title = ''t'', Body = ''b''\<rparr>)], idPostCounter = 0\<rparr>,
        Inr \<lparr>ID = 42, Title = ''t'', Body = ''b''\<rparr>) \<and>
   GetPostByID (fst (UpdatePost init_state \<lparr>ID = 42, Title = ''t'', Body = ''b''\<rparr>)) 42
     = Inr \<lparr>ID = 42, Title = ''t'', Body = ''b''\<rparr>"
  using UpdatePost_upsert [of init_state "\<lparr>ID = 42, Title = ''t'', Body = ''b''\<rparr>"]
  by (simp add: init_state_def UpdatePost_def)

section \<open>The notifier demo: \<^verbatim>\<open>UpdateHandler\<close>\<close>

lemma notify_all_success:
  "\<forall>n\<in>set ns. NotifyPostUpdated n post ActionUpdate = None \<Longrightarrow>
   notify_all ns post log = (log @ map (\<lambda>n. (n, post, ActionUpdate)) ns, None)"
  by (induction ns arbitrary: log) simp_all

lemma notify_all_failure:
  "\<forall>m\<in>set pre. NotifyPostUpdated m post ActionUpdate = None \<Longrightarrow>
   NotifyPostUpdated n post ActionUpdate = Some err \<Longrightarrow>
   notify_all (pre @ n # rest) post log =
     (log @ map (\<lambda>n. (n, post, ActionUpdate)) (pre @ [n]), Some err)"
  by (induction pre arbitrary: log) simp_all

text \<open>The loop of \<^verbatim>\<open>lsp.go\<close> is the loop of the first variant on the notifiers of
  dynamic type \<^verbatim>\<open>*EmailNotifier\<close>.\<close>

lemma notify_all_lsp_filter:
  "notify_all_lsp ns post log = notify_all (filter is_EmailNotifier ns) post log"
proof (induction ns arbitrary: log)
  case Nil
  then show ?case by simp
next
  case (Cons n ns)
  then show ?case by (cases n) (simp_all split: option.splits)
qed

text \<open>The loop calls a prefix of its notifiers, in their order.\<close>

lemma notify_all_prefix:
  "\<exists>k. fst (notify_all ns post log) = log @ map (\<lambda>n. (n, post, ActionUpdate)) (take k ns)"
proof (induction ns arbitrary: log)
  case Nil
  then show ?case by simp
next
  case (Cons n ns)
  show ?case
  proof (cases "NotifyPostUpdated n post ActionUpdate")
    case None
    from Cons.IH [of "log @ [(n, post, ActionUpdate)]"] obtain k where
      "fst (notify_all ns post (log @ [(n, post, ActionUpdate)])) =
         (log @ [(n, post, ActionUpdate)]) @ map (\<lambda>n. (n, post, ActionUpdate)) (take k ns)"
      by blast
    with None have "fst (notify_all (n # ns) post log) =
        log @ map (\<lambda>n. (n, post, ActionUpdate)) (take (Suc k) (n # ns))"
      by simp
    then show ?thesis by blast
  next
    case (Some err)
    then have "fst (notify_all (n # ns) post log) =
        log @ map (\<lambda>n. (n, post, ActionUpdate)) (take (Suc 0) (n # ns))"
      by simp
    then show ?thesis by blast
  qed
qed

lemma after_call_by_value_JSON:
  "after_call_by_value c (JSON code obj c) = JSON code obj c"
  by (simp add: after_call_by_value_def JSON_def)

lemma after_call_by_value_Error: "after_call_by_value c (Error err c) = c"
  by (simp add: after_call_by_value_def Error_def)

text \<open>
  What \<^verbatim>\<open>UpdateHandler\<close> of the first variant does. It calls the registered notifiers
  in their order. If all of them return nil, all of them have been called and the
  handler answers 200 with \<^verbatim>\<open>{"status":"post updated"}\<close>. If one returns an error and
  those before it returned nil, the notifiers up to and including that one have been
  called, in order, and none after it, and the request's context is what it was before
  the call: the error went to the handler's copy. On a fresh context the body
  \<^verbatim>\<open>{"status":"post updated"}\<close> is written exactly when every notifier returns nil.
\<close>

lemma UpdateHandler_calls_in_order:
  "((\<forall>n\<in>set (notifiers h). NotifyPostUpdated n zero_Post ActionUpdate = None) \<longrightarrow>
      UpdateHandler h c log =
        (log @ map (\<lambda>n. (n, zero_Post, ActionUpdate)) (notifiers h), JSON 200 post_updated c)) \<and>
   (notifiers h = pre @ n # rest \<and>
    (\<forall>m\<in>set pre. NotifyPostUpdated m zero_Post ActionUpdate = None) \<and>
    NotifyPostUpdated n zero_Post ActionUpdate = Some err \<longrightarrow>
      UpdateHandler h c log = (log @ map (\<lambda>n. (n, zero_Post, ActionUpdate)) (pre @ [n]), c)) \<and>
   (body (snd (UpdateHandler h new_context log)) = Some post_updated \<longleftrightarrow>
      (\<forall>n\<in>set (notifiers h). NotifyPostUpdated n zero_Post ActionUpdate = None))"
proof (intro conjI impI)
  assume "\<forall>n\<in>set (notifiers h). NotifyPostUpdated n zero_Post ActionUpdate = None"
  then show "UpdateHandler h c log =
        (log @ map (\<lambda>n. (n, zero_Post, ActionUpdate)) (notifiers h), JSON 200 post_updated c)"
    by (simp add: UpdateHandler_def notify_all_success after_call_by_value_JSON)
next
  assume "notifiers h = pre @ n # rest \<and>
    (\<forall>m\<in>set pre. NotifyPostUpdated m zero_Post ActionUpdate = None) \<and>
    NotifyPostUpdated n zero_Post ActionUpdate = Some err"
  then show "UpdateHandler h c log =
        (log @ map (\<lambda>n. (n, zero_Post, ActionUpdate)) (pre @ [n]), c)"
    by (simp add: UpdateHandler_def notify_all_failure after_call_by_value_Error)
next
  show "body (snd (UpdateHandler h new_context log)) = Some post_updated \<longleftrightarrow>
      (\<forall>n\<in>set (notifiers h). NotifyPostUpdated n zero_Post ActionUpdate = None)"
  proof (cases "\<forall>n\<in>set (notifiers h). NotifyPostUpdated n zero_Post ActionUpdate = None")
    case True
    then show ?thesis
      by (simp add: UpdateHandler_def notify_all_success after_call_by_value_def JSON_def)
  next
    case False
    then have "\<exists>n\<in>set (notifiers h). NotifyPostUpdated n zero_Post ActionUpdate \<noteq> None"
      by blast
    from split_list_first_prop [OF this] obtain pre n rest where
      sp: "notifiers h = pre @ n # rest"
      and n: "NotifyPostUpdated n zero_Post ActionUpdate \<noteq> None"
      and pre: "\<forall>m\<in>set pre. \<not> NotifyPostUpdated m zero_Post ActionUpdate \<noteq> None"
      by blast
    from n obtain err where "NotifyPostUpdated n zero_Post ActionUpdate = Some err" by blast
    with pre have "notify_all (pre @ n # rest) zero_Post log =
        (log @ map (\<lambda>n. (n, zero_Post, ActionUpdate)) (pre @ [n]), Some err)"
      by (intro notify_all_failure) simp_all
    with False sp show ?thesis
      by (simp add: UpdateHandler_def after_call_by_value_Error new_context_def)
  qed
qed

text \<open>
  C7. The handler is to record the error of the notifier that fails. It does not:
  \<^verbatim>\<open>UpdateHandler\<close> takes its \<^verbatim>\<open>gin.Context\<close> by value, so \<^verbatim>\<open>c.Error(err)\<close> attaches
  the error to the handler's own copy, and the context of the request holds no error
  after the call. With an e-mail notifier that succeeds, a line notifier that fails and a
  third notifier registered, the first two are called in this order, the third is not,
  no response is written, and the request's context comes back as it went in, its error
  list empty.
\<close>

theorem UpdateHandler_error_not_recorded:
  "NotifyPostUpdated (LineNotifier (\<lambda>post action. Some (OtherError ''line is down'')))
      zero_Post ActionUpdate = Some (OtherError ''line is down'') \<and>
   UpdateHandler
      (NewPostHandler_notifiers
         [EmailNotifier (\<lambda>sender recipient subject text. None),
          LineNotifier (\<lambda>post action. Some (OtherError ''line is down'')),
          OtherNotifier ''*SmsNotifier'' (\<lambda>post action. None)])
      new_context []
     = ([(EmailNotifier (\<lambda>sender recipient subject text. None), zero_Post, ''update''),
         (LineNotifier (\<lambda>post action. Some (OtherError ''line is down'')), zero_Post, ''update'')],
        \<lparr>status = 200, body = None, errors = [], aborted = False\<rparr>) \<and>
   errors (snd (UpdateHandler
      (NewPostHandler_notifiers
         [EmailNotifier (\<lambda>sender recipient subject text. None),
          LineNotifier (\<lambda>post action. Some (OtherError ''line is down'')),
          OtherNotifier ''*SmsNotifier'' (\<lambda>post action. None)])
      new_context [])) \<noteq> [OtherError ''line is down'']"
  by (simp add: NewPostHandler_notifiers_def LineNotifier_def ActionUpdate_def UpdateHandler_def
      after_call_by_value_def Error_def new_context_def)

section \<open>The notifier demo: \<^verbatim>\<open>UpdateHandler\<close> of \<^verbatim>\<open>lsp.go\<close>\<close>

text \<open>
  C10. In \<^verbatim>\<open>lsp.go\<close>, the calls that \<^verbatim>\<open>UpdateHandler\<close> makes are calls to notifiers of
  dynamic type \<^verbatim>\<open>*EmailNotifier\<close>, a prefix of those registered, in their order; a
  notifier of any other type is never called. The handler does what the first variant
  does when only the e-mail notifiers are registered. So whenever the e-mail notifiers
  return nil, it answers 200 with \<^verbatim>\<open>{"status":"post updated"}\<close>, whatever the skipped
  notifiers would have returned.
\<close>

theorem UpdateHandler_lsp_only_email:
  "(\<exists>k. fst (UpdateHandler_lsp h c log) =
          log @ map (\<lambda>n. (n, zero_Post, ActionUpdate))
                  (take k (filter is_EmailNotifier (notifiers h)))) \<and>
   UpdateHandler_lsp h c log =
     UpdateHandler (h\<lparr>notifiers := filter is_EmailNotifier (notifiers h)\<rparr>) c log \<and>
   ((\<forall>n\<in>set (notifiers h). is_EmailNotifier n \<longrightarrow>
        NotifyPostUpdated n zero_Post ActionUpdate = None) \<longrightarrow>
      UpdateHandler_lsp h c log =
        (log @ map (\<lambda>n. (n, zero_Post, ActionUpdate)) (filter is_EmailNotifier (notifiers h)),
         JSON 200 post_updated c))"
proof (intro conjI impI)
  from notify_all_prefix [of "filter is_EmailNotifier (notifiers h)" zero_Post log]
  obtain k where "fst (notify_all (filter is_EmailNotifier (notifiers h)) zero_Post log) =
      log @ map (\<lambda>n. (n, zero_Post, ActionUpdate)) (take k (filter is_EmailNotifier (notifiers h)))"
    by blast
  then have "fst (UpdateHandler_lsp h c log) =
      log @ map (\<lambda>n. (n, zero_Post, ActionUpdate)) (take k (filter is_EmailNotifier (notifiers h)))"
    by (auto simp: UpdateHandler_lsp_def notify_all_lsp_filter split: prod.splits option.splits)
  then show "\<exists>k. fst (UpdateHandler_lsp h c log) =
      log @ map (\<lambda>n. (n, zero_Post, ActionUpdate)) (take k (filter is_EmailNotifier (notifiers h)))"
    by blast
next
  show "UpdateHandler_lsp h c log =
     UpdateHandler (h\<lparr>notifiers := filter is_EmailNotifier (notifiers h)\<rparr>) c log"
    by (simp add: UpdateHandler_lsp_def UpdateHandler_def notify_all_lsp_filter)
next
  assume "\<forall>n\<in>set (notifiers h). is_EmailNotifier n \<longrightarrow>
        NotifyPostUpdated n zero_Post ActionUpdate = None"
  then have "\<forall>n\<in>set (filter is_EmailNotifier (notifiers h)).
        NotifyPostUpdated n zero_Post ActionUpdate = None"
    by simp
  then show "UpdateHandler_lsp h c log =
        (log @ map (\<lambda>n. (n, zero_Post, ActionUpdate)) (filter is_EmailNotifier (notifiers h)),
         JSON 200 post_updated c)"
    by (simp only: UpdateHandler_lsp_def notify_all_lsp_filter notify_all_success Let_def
        prod.case option.case after_call_by_value_JSON)
qed

text \<open>
  A line notifier that would fail, registered before an e-mail notifier that succeeds:
  only the e-mail notifier is called and the answer is 200.
\<close>

theorem UpdateHandler_lsp_only_email_witness:
  "UpdateHandler_lsp
      \<lparr>notifiers = [LineNotifier (\<lambda>post action. Some (OtherError ''line is down'')),
                    EmailNotifier (\<lambda>sender recipient subject text. None)]\<rparr>
      new_context []
     = ([(EmailNotifier (\<lambda>sender recipient subject text. None), zero_Post, ''update'')],
        \<lparr>status = 200, body = Some (JObj [(''status'', JStr ''post updated'')]),
         errors = [], aborted = False\<rparr>)"
  using UpdateHandler_lsp_only_email [where
      h = "\<lparr>notifiers = [LineNotifier (\<lambda>post action. Some (OtherError ''line is down'')),
                         EmailNotifier (\<lambda>sender recipient subject text. None)]\<rparr>"
      and c = new_context and log = "[]"]
  by (simp add: LineNotifier_def ActionUpdate_def post_updated_def JSON_def new_context_def
      UpdateHandler_lsp_def UpdateHandler_def after_call_by_value_def)

end
